theory Spec2Isabelle
  imports Complex_Main
begin

section \<open>JavaScript values\<close>

text \<open>
  The converter scripts work on the rows that the spreadsheet reader returns: plain objects
  whose keys are the header strings and whose values are strings, numbers or empty cells.

  A JavaScript string is a sequence of UTF-16 code units; a code unit is modelled by its
  number. A number is an IEEE double; \<open>Fin q\<close> stands for the double nearest to the
  rational \<open>q\<close> (both zeros are \<open>Fin 0\<close>), so two numbers with the same \<open>q\<close> are the same
  double.
\<close>

type_synonym jschar = nat
type_synonym jsstring = "jschar list"

datatype jsnum = NaN | PosInf | NegInf | Fin rat

datatype jsval = Undefined | Null | Str jsstring | Num jsnum

text \<open>
  A row object: its own enumerable properties, in the order \<open>Object.keys\<close> lists them.
\<close>

type_synonym produto = "(jsstring \<times> jsval) list"

definition Object_keys :: "produto \<Rightarrow> jsstring list" where
  "Object_keys obj = map fst obj"

definition hasOwnProperty :: "produto \<Rightarrow> jsstring \<Rightarrow> bool" where
  "hasOwnProperty obj nome = (nome \<in> set (Object_keys obj))"

text \<open>\<open>obj[chave]\<close>: a missing property reads as \<open>undefined\<close>.\<close>

definition propriedade :: "produto \<Rightarrow> jsstring \<Rightarrow> jsval" where
  "propriedade obj chave = (case map_of obj chave of None \<Rightarrow> Undefined | Some v \<Rightarrow> v)"

text \<open>
  The library functions of the language that the scripts call and that are not code of the
  repository: Unicode normalisation to NFD, \<open>toLowerCase\<close>, and the conversion of a number
  to a string. The scripts are modelled for any such functions.
\<close>

record builtins =
  normalizeNFD :: "jsstring \<Rightarrow> jsstring"
  toLowerCase :: "jsstring \<Rightarrow> jsstring"
  numberToString :: "jsnum \<Rightarrow> jsstring"

text \<open>ASCII text as code units.\<close>

definition asc :: "string \<Rightarrow> jsstring" where
  "asc s = map of_char s"

text \<open>White space and line terminators, the characters \<open>trim\<close> removes.\<close>

definition is_ws :: "jschar \<Rightarrow> bool" where
  "is_ws c = (c \<in> set [0x9, 0xA, 0xB, 0xC, 0xD, 0x20, 0xA0, 0x1680, 0x2028, 0x2029,
                        0x202F, 0x205F, 0x3000, 0xFEFF] \<or> (0x2000 \<le> c \<and> c \<le> 0x200A))"

definition trim :: "jsstring \<Rightarrow> jsstring" where
  "trim s = rev (dropWhile is_ws (rev (dropWhile is_ws s)))"

text \<open>\<open>ToString\<close> of a value, as \<open>String(v)\<close> and a template literal compute it.\<close>

definition ToString :: "builtins \<Rightarrow> jsval \<Rightarrow> jsstring" where
  "ToString B v = (case v of
      Undefined \<Rightarrow> asc ''undefined''
    | Null \<Rightarrow> asc ''null''
    | Str s \<Rightarrow> s
    | Num n \<Rightarrow> numberToString B n)"

text \<open>Truthiness of a value (\<open>if (v)\<close>, \<open>!v\<close>, \<open>v || d\<close>).\<close>

definition truthy :: "jsval \<Rightarrow> bool" where
  "truthy v = (case v of
      Undefined \<Rightarrow> False
    | Null \<Rightarrow> False
    | Str s \<Rightarrow> s \<noteq> []
    | Num n \<Rightarrow> n \<noteq> NaN \<and> n \<noteq> Fin 0)"

text \<open>\<open>s.includes(sub)\<close>.\<close>

fun str_includes :: "jsstring \<Rightarrow> jsstring \<Rightarrow> bool" where
  "str_includes [] sub = (sub = [])"
| "str_includes (c # cs) sub = (take (length sub) (c # cs) = sub \<or> str_includes cs sub)"

text \<open>\<open>s.split(sep)\<close> for a separator of one character, and \<open>parts.join(sep)\<close>.\<close>

fun str_split :: "jsstring \<Rightarrow> jschar \<Rightarrow> jsstring list" where
  "str_split [] sep = [[]]"
| "str_split (c # cs) sep =
     (if c = sep then [] # str_split cs sep
      else (case str_split cs sep of [] \<Rightarrow> [[c]] | p # ps \<Rightarrow> (c # p) # ps))"

fun str_join :: "jsstring list \<Rightarrow> jschar \<Rightarrow> jsstring" where
  "str_join [] sep = []"
| "str_join [p] sep = p"
| "str_join (p # q # ps) sep = p @ sep # str_join (q # ps) sep"

text \<open>\<open>xs.findIndex(p)\<close>: the index of the first element satisfying \<open>p\<close>, or -1.\<close>

fun findIndex :: "('a \<Rightarrow> bool) \<Rightarrow> 'a list \<Rightarrow> int" where
  "findIndex p [] = -1"
| "findIndex p (x # xs) =
     (if p x then 0 else (let i = findIndex p xs in if i < 0 then -1 else i + 1))"

text \<open>The decimal digits of an index, as a template literal prints \<open>index + 1\<close>.\<close>

fun dec :: "nat \<Rightarrow> jsstring" where
  "dec n = (if n < 10 then [48 + n] else dec (n div 10) @ [48 + n mod 10])"

section \<open>Header names\<close>

text \<open>The header names the scripts look for; the accented letters are written by code.\<close>

definition nome_Codigo :: jsstring where "nome_Codigo = asc ''C'' @ [0xF3] @ asc ''digo''"
definition nome_Descricao :: jsstring where "nome_Descricao = asc ''Descri'' @ [0xE7, 0xE3] @ asc ''o''"
definition nome_Catalogo :: jsstring where "nome_Catalogo = asc ''Cat'' @ [0xE1] @ asc ''logo''"
definition nome_Denominacao :: jsstring where
  "nome_Denominacao = asc ''Denomina'' @ [0xE7, 0xE3] @ asc ''o''"
definition nome_Classificacao_Fiscal :: jsstring where
  "nome_Classificacao_Fiscal = asc ''Classifica'' @ [0xE7, 0xE3] @ asc ''o Fiscal''"
definition nome_Preco_Varejo :: jsstring where
  "nome_Preco_Varejo = asc ''Pre'' @ [0xE7] @ asc ''o Varejo''"
definition nome_Preco_Atacado :: jsstring where
  "nome_Preco_Atacado = asc ''Pre'' @ [0xE7] @ asc ''o Atacado''"
definition nome_Preco_Promocao :: jsstring where
  "nome_Preco_Promocao = asc ''Pre'' @ [0xE7] @ asc ''o Promo'' @ [0xE7, 0xE3] @ asc ''o''"
definition nome_Preco_Compra :: jsstring where
  "nome_Preco_Compra = asc ''Pre'' @ [0xE7] @ asc ''o Compra''"
definition nome_Codigo_Original :: jsstring where
  "nome_Codigo_Original = asc ''C'' @ [0xF3] @ asc ''digo Original''"
definition nome_Endereco :: jsstring where "nome_Endereco = asc ''Endere'' @ [0xE7] @ asc ''o''"
definition nome_Endereco_2 :: jsstring where "nome_Endereco_2 = asc ''Endere'' @ [0xE7] @ asc ''o 2''"
definition nome_Pendencia :: jsstring where "nome_Pendencia = asc ''Pend'' @ [0xEA] @ asc ''ncia''"

section \<open>conversor-final-corrigido-v2.js: finding a column\<close>

text \<open>
  \<open>normalizar\<close>: the empty string stays empty; otherwise NFD, the combining marks
  U+0300 to U+036F removed, lower case, trimmed.
\<close>

definition normalizar :: "builtins \<Rightarrow> jsstring \<Rightarrow> jsstring" where
  "normalizar B texto =
     (if texto = [] then []
      else trim (toLowerCase B
             (filter (\<lambda>c. \<not> (0x300 \<le> c \<and> c \<le> 0x36F)) (normalizeNFD B texto))))"

text \<open>
  \<open>encontrarColuna\<close>, for a row object and an array of names (the function returns
  \<open>null\<close> for anything else). The first loop looks for a name that is a key of the
  object; the second goes through the keys and compares normalised names.
\<close>

fun correspondencia_exata :: "produto \<Rightarrow> jsstring list \<Rightarrow> jsstring option" where
  "correspondencia_exata obj [] = None"
| "correspondencia_exata obj (nome # nomes) =
     (if hasOwnProperty obj nome then Some nome else correspondencia_exata obj nomes)"

fun por_normalizacao :: "builtins \<Rightarrow> jsstring list \<Rightarrow> jsstring list \<Rightarrow> jsstring option" where
  "por_normalizacao B normalizados [] = None"
| "por_normalizacao B normalizados (chave # todasChaves) =
     (let chaveNormalizada = normalizar B chave;
          indice = findIndex (\<lambda>n. n = chaveNormalizada) normalizados
      in if indice \<ge> 0 then Some chave else por_normalizacao B normalizados todasChaves)"

definition encontrarColuna :: "builtins \<Rightarrow> produto \<Rightarrow> jsstring list \<Rightarrow> jsstring option" where
  "encontrarColuna B obj possiveisNomes =
     (case correspondencia_exata obj possiveisNomes of
        Some nome \<Rightarrow> Some nome
      | None \<Rightarrow> por_normalizacao B (map (normalizar B) possiveisNomes) (Object_keys obj))"

section \<open>Converting a string to a number\<close>

text \<open>
  \<open>Number(s)\<close> on a string: white space around the text is dropped; the empty text is 0;
  the text is a signed decimal literal (digits, an optional fraction, an optional exponent,
  or \<open>Infinity\<close>) or an unsigned binary, octal or hexadecimal integer literal; anything
  else is \<open>NaN\<close>.
\<close>

definition is_digit :: "jschar \<Rightarrow> bool" where
  "is_digit c = (48 \<le> c \<and> c \<le> 57)"

definition digits_val :: "jsstring \<Rightarrow> nat" where
  "digits_val ds = foldl (\<lambda>a c. 10 * a + (c - 48)) 0 ds"

definition SignedInteger :: "jsstring \<Rightarrow> int option" where
  "SignedInteger s = (case s of
      [] \<Rightarrow> None
    | c # r \<Rightarrow>
        if c = 0x2B then (if r \<noteq> [] \<and> list_all is_digit r then Some (int (digits_val r)) else None)
        else if c = 0x2D then
          (if r \<noteq> [] \<and> list_all is_digit r then Some (- int (digits_val r)) else None)
        else if list_all is_digit s then Some (int (digits_val s)) else None)"

text \<open>The exponent part, which may be absent: \<open>e\<close> or \<open>E\<close> and a signed integer.\<close>

definition ExponentPart :: "jsstring \<Rightarrow> int option" where
  "ExponentPart s = (case s of
      [] \<Rightarrow> Some 0
    | c # r \<Rightarrow> if c = 0x65 \<or> c = 0x45 then SignedInteger r else None)"

definition scale10 :: "rat \<Rightarrow> int \<Rightarrow> rat" where
  "scale10 q e = (if e \<ge> 0 then q * 10 ^ nat e else q / 10 ^ nat (- e))"

definition StrUnsignedDecimalLiteral :: "jsstring \<Rightarrow> jsnum option" where
  "StrUnsignedDecimalLiteral s =
     (if s = asc ''Infinity'' then Some PosInf
      else
        let ip = takeWhile is_digit s;
            r1 = dropWhile is_digit s;
            ponto = (r1 \<noteq> [] \<and> hd r1 = 0x2E);
            fp = (if ponto then takeWhile is_digit (tl r1) else []);
            r2 = (if ponto then dropWhile is_digit (tl r1) else r1)
        in if ip = [] \<and> fp = [] then None
           else (case ExponentPart r2 of
                   None \<Rightarrow> None
                 | Some e \<Rightarrow>
                     Some (Fin (scale10 (of_nat (digits_val ip)
                                         + of_nat (digits_val fp) / 10 ^ length fp) e))))"

definition negativo :: "jsnum \<Rightarrow> jsnum" where
  "negativo n = (case n of NaN \<Rightarrow> NaN | PosInf \<Rightarrow> NegInf | NegInf \<Rightarrow> PosInf | Fin q \<Rightarrow> Fin (- q))"

definition StrDecimalLiteral :: "jsstring \<Rightarrow> jsnum option" where
  "StrDecimalLiteral s = (case s of
      [] \<Rightarrow> None
    | c # r \<Rightarrow>
        if c = 0x2B then StrUnsignedDecimalLiteral r
        else if c = 0x2D then map_option negativo (StrUnsignedDecimalLiteral r)
        else StrUnsignedDecimalLiteral s)"

definition digit_of :: "jschar \<Rightarrow> nat" where
  "digit_of c = (if 48 \<le> c \<and> c \<le> 57 then c - 48
                 else if 97 \<le> c \<and> c \<le> 102 then c - 87
                 else if 65 \<le> c \<and> c \<le> 70 then c - 55
                 else 16)"

definition NonDecimalIntegerLiteral :: "jsstring \<Rightarrow> jsnum option" where
  "NonDecimalIntegerLiteral s = (case s of
      z # x # r \<Rightarrow>
        (let base = (if x = 0x62 \<or> x = 0x42 then 2
                     else if x = 0x6F \<or> x = 0x4F then 8
                     else if x = 0x78 \<or> x = 0x58 then 16 else (0 :: nat))
         in if z = 0x30 \<and> base \<noteq> 0 \<and> r \<noteq> [] \<and> list_all (\<lambda>c. digit_of c < base) r
            then Some (Fin (of_nat (foldl (\<lambda>a c. base * a + digit_of c) 0 r)))
            else None)
    | _ \<Rightarrow> None)"

definition StringToNumber :: "jsstring \<Rightarrow> jsnum" where
  "StringToNumber s =
     (let t = trim s
      in if t = [] then Fin 0
         else (case StrDecimalLiteral t of
                 Some n \<Rightarrow> n
               | None \<Rightarrow> (case NonDecimalIntegerLiteral t of Some n \<Rightarrow> n | None \<Rightarrow> NaN)))"

text \<open>\<open>s.replace(',', '.')\<close> replaces the first occurrence only.\<close>

fun replace_first :: "jschar \<Rightarrow> jschar \<Rightarrow> jsstring \<Rightarrow> jsstring" where
  "replace_first a b [] = []"
| "replace_first a b (c # cs) = (if c = a then b # cs else c # replace_first a b cs)"

section \<open>conversor-final-corrigido-v2.js: values and numbers\<close>

definition estaVazio :: "jsval \<Rightarrow> bool" where
  "estaVazio valor = (case valor of
      Undefined \<Rightarrow> True
    | Null \<Rightarrow> True
    | Str s \<Rightarrow> trim s = []
    | Num n \<Rightarrow> False)"

text \<open>
  \<open>obterValorSeguro\<close> on a row object and an array of names. A name found that is the
  empty string counts as not found (\<open>if (nomeEncontrado)\<close>).
\<close>

definition obterValorSeguro :: "builtins \<Rightarrow> produto \<Rightarrow> jsstring list \<Rightarrow> jsval \<Rightarrow> jsval" where
  "obterValorSeguro B obj nomes valorPadrao = (case encontrarColuna B obj nomes of
      None \<Rightarrow> valorPadrao
    | Some nomeEncontrado \<Rightarrow>
        if nomeEncontrado = [] then valorPadrao
        else (let valor = propriedade obj nomeEncontrado
              in if valor = Undefined \<or> valor = Null then valorPadrao
                 else (case valor of
                         Str s \<Rightarrow> if trim s = [] then valorPadrao else valor
                       | _ \<Rightarrow> valor)))"

text \<open>
  \<open>parseNumero\<close>: the dots are removed, the first comma becomes a dot, and the text is
  converted; a number is returned as it is, unless it is \<open>NaN\<close>. No conversion of these
  values throws, so the handler of the function is never entered.
\<close>

definition parseNumero :: "builtins \<Rightarrow> jsval \<Rightarrow> jsval \<Rightarrow> jsval" where
  "parseNumero B valor valorPadrao =
     (if valor = Undefined \<or> valor = Null \<or> valor = Str [] then valorPadrao
      else (case valor of
              Num n \<Rightarrow> if n = NaN then valorPadrao else valor
            | _ \<Rightarrow>
               (let valorStr = replace_first 0x2C 0x2E (filter (\<lambda>c. c \<noteq> 0x2E) (ToString B valor));
                    valorConvertido = StringToNumber valorStr
                in if valorConvertido = NaN then valorPadrao else Num valorConvertido)))"

section \<open>conversor-final-corrigido-v2.js: the description\<close>

text \<open>
  The errors thrown: a \<open>TypeError\<close> of the language, the two errors of the scripts, and
  the error that \<open>converterProduto\<close> throws again around an error, with the text it puts
  before the message.
\<close>

datatype erro =
    TypeError
  | ProdutoInvalido
  | CampoCodigoObrigatorio
  | ErroAoConverter jsstring erro

text \<open>
  What the scripts print is kept as a list of events, each with the values the message
  shows.
\<close>

datatype evento =
    DescricaoEncontrada jsstring nat jsstring
  | DescricaoInferida nat jsstring
  | DescricaoExtraida jsstring nat jsstring
  | AvisoDescricaoPadrao nat jsstring
  | InferindoDescricao nat jsval jsstring jsval jsstring
  | AvisoDescricaoVazia jsval
  | ErroAoProcessar nat erro

definition colunasDescricao :: "jsstring list" where
  "colunasDescricao =
     [nome_Descricao, asc ''Descricao'', asc ''Descr'', asc ''Desc'', asc ''Description'',
      asc ''Nome'', asc ''Nome do Produto'', asc ''Produto'', nome_Denominacao,
      asc ''Denominacao'']"

text \<open>The regular expression \<open>/[a-zA-Z]/\<close> tested on a string.\<close>

definition tem_letra :: "jsstring \<Rightarrow> bool" where
  "tem_letra s = list_ex (\<lambda>c. (97 \<le> c \<and> c \<le> 122) \<or> (65 \<le> c \<and> c \<le> 90)) s"

text \<open>Method 1: the description columns, in the order of the list.\<close>

fun metodo1 :: "builtins \<Rightarrow> produto \<Rightarrow> jsstring list \<Rightarrow> jsval option" where
  "metodo1 B produtoAtual [] = None"
| "metodo1 B produtoAtual (col # cols) =
     (let descricao = obterValorSeguro B produtoAtual [col] (Str [])
      in if \<not> estaVazio descricao then Some descricao else metodo1 B produtoAtual cols)"

text \<open>The columns method 2 skips.\<close>

definition nao_descricao :: "builtins \<Rightarrow> jsstring \<Rightarrow> bool" where
  "nao_descricao B col =
     (str_includes (normalizar B col) (asc ''codigo'') \<or>
      str_includes (normalizar B col) (asc ''preco'') \<or>
      str_includes (normalizar B col) (asc ''valor'') \<or>
      str_includes (normalizar B col) (asc ''ncm'') \<or>
      str_includes (normalizar B col) (asc ''unidade''))"

text \<open>Method 2: every column of the row, in the order of its keys.\<close>

fun metodo2 :: "builtins \<Rightarrow> produto \<Rightarrow> jsstring list \<Rightarrow> (jsstring \<times> jsstring) option" where
  "metodo2 B produtoAtual [] = None"
| "metodo2 B produtoAtual (col # todasColunas) =
     (if nao_descricao B col then metodo2 B produtoAtual todasColunas
      else (case propriedade produtoAtual col of
              Str valor \<Rightarrow>
                if \<not> estaVazio (Str valor) \<and> length valor \<ge> 3 \<and> tem_letra valor
                then Some (col, valor)
                else metodo2 B produtoAtual todasColunas
            | _ \<Rightarrow> metodo2 B produtoAtual todasColunas))"

text \<open>Method 3: the code, split at its spaces.\<close>

definition metodo3 :: "builtins \<Rightarrow> produto \<Rightarrow> jsstring option" where
  "metodo3 B produtoAtual =
     (let codigo = obterValorSeguro B produtoAtual [nome_Codigo, asc ''Codigo''] (Str [])
      in case codigo of
           Str s \<Rightarrow>
             if \<not> estaVazio codigo \<and> str_includes s [0x20]
             then (let partes = str_split s 0x20 in Some (str_join (drop 1 partes) 0x20))
             else None
         | _ \<Rightarrow> None)"

text \<open>Method 4: the longest string of the row with more than one character and a letter.\<close>

fun possiveisCamposDescricao :: "produto \<Rightarrow> jsstring list \<Rightarrow> (jsstring \<times> jsstring) list" where
  "possiveisCamposDescricao produtoAtual [] = []"
| "possiveisCamposDescricao produtoAtual (col # todasColunas) =
     (case propriedade produtoAtual col of
        Str valor \<Rightarrow>
          if \<not> estaVazio (Str valor) \<and> length valor > 1 \<and> tem_letra valor
          then (col, valor) # possiveisCamposDescricao produtoAtual todasColunas
          else possiveisCamposDescricao produtoAtual todasColunas
      | _ \<Rightarrow> possiveisCamposDescricao produtoAtual todasColunas)"

text \<open>\<open>xs.reduce(f)\<close> with no initial value throws a \<open>TypeError\<close> on an empty array.\<close>

definition reduce :: "('a \<Rightarrow> 'a \<Rightarrow> 'a) \<Rightarrow> 'a list \<Rightarrow> erro + 'a" where
  "reduce f xs = (case xs of [] \<Rightarrow> Inl TypeError | x # r \<Rightarrow> Inr (foldl f x r))"

definition mais_longo ::
  "(jsstring \<times> jsstring) \<Rightarrow> (jsstring \<times> jsstring) \<Rightarrow> (jsstring \<times> jsstring)" where
  "mais_longo max' atual = (if length (snd atual) > length (snd max') then atual else max')"

definition extrairDescricao ::
  "builtins \<Rightarrow> produto \<Rightarrow> nat \<Rightarrow> erro + (jsval \<times> evento list)" where
  "extrairDescricao B produtoAtual index =
     (case metodo1 B produtoAtual colunasDescricao of
        Some descricao \<Rightarrow> Inr (descricao, [])
      | None \<Rightarrow>
         (let todasColunas = Object_keys produtoAtual
          in case metodo2 B produtoAtual todasColunas of
               Some (col, valor) \<Rightarrow>
                 Inr (Str valor, [DescricaoEncontrada col (index + 1) valor])
             | None \<Rightarrow>
                (case metodo3 B produtoAtual of
                   Some descricaoInferida \<Rightarrow>
                     Inr (Str descricaoInferida, [DescricaoInferida (index + 1) descricaoInferida])
                 | None \<Rightarrow>
                    (let campos = possiveisCamposDescricao produtoAtual todasColunas
                     in if length campos > 0
                        then (case reduce mais_longo campos of
                                Inl e \<Rightarrow> Inl e
                              | Inr melhorDescricao \<Rightarrow>
                                  Inr (Str (snd melhorDescricao),
                                       [DescricaoExtraida (fst melhorDescricao) (index + 1)
                                          (snd melhorDescricao)]))
                        else Inr (Str [], [])))))"

section \<open>conversor-final-corrigido-v2.js: converting a product\<close>

text \<open>
  The map of the columns found: for each field the header found in the first row, or
  nothing.
\<close>

record mapa =
  catalogo :: "jsstring option"
  codigo :: "jsstring option"
  descricao :: "jsstring option"
  unidade :: "jsstring option"
  ncm :: "jsstring option"
  precoVarejo :: "jsstring option"
  precoAtacado :: "jsstring option"
  precoPromocao :: "jsstring option"
  estoque :: "jsstring option"
  precoCompra :: "jsstring option"
  codigoOriginal :: "jsstring option"
  endereco :: "jsstring option"
  endereco2 :: "jsstring option"
  fornecedor :: "jsstring option"
  garantia :: "jsstring option"
  pendencia :: "jsstring option"
  linha :: "jsstring option"
  grupo :: "jsstring option"

text \<open>
  \<open>mapa.campo || [nomes]\<close>, as \<open>obterValorSeguro\<close> then reads it: a header that is not
  the empty string is the only name, otherwise the names of the list.
\<close>

definition nomes_ou :: "jsstring option \<Rightarrow> jsstring list \<Rightarrow> jsstring list" where
  "nomes_ou campo padrao = (case campo of
      None \<Rightarrow> padrao
    | Some h \<Rightarrow> if h = [] then padrao else [h])"

text \<open>
  The output record. Of its columns, the ones computed from the row are kept; the columns
  the scripts always set to the empty string (Origem, Situacao, GTIN/EAN, Marca, CEST
  and the others) or to \<open>null\<close> (Valor IPI fixo, Estoque maximo, Estoque minimo, the weights
  and sizes, Itens p/ caixa, Volumes and the ICMS values) are left out.
\<close>

record saida =
  ID :: jsval
  Codigo :: jsval
  Descricao :: jsval
  Unidade :: jsval
  NCM :: jsval
  Preco :: jsval
  Observacoes :: jsstring
  Estoque :: jsval
  Preco_de_custo :: jsval
  Cod_no_fornecedor :: jsval
  Fornecedor :: jsval
  Localizacao :: jsval
  Grupo_de_produtos :: jsval
  Meses_Garantia_no_Fornecedor :: jsval
  Departamento :: jsval
  Preco_de_compra :: jsval
  Informacoes_Adicionais :: jsstring

text \<open>The texts of the notes.\<close>

definition txt_Preco_atacado :: jsstring where
  "txt_Preco_atacado = asc ''Pre'' @ [0xE7] @ asc ''o atacado: ''"
definition txt_Preco_promocao :: jsstring where
  "txt_Preco_promocao = asc ''Pre'' @ [0xE7] @ asc ''o promo'' @ [0xE7, 0xE3] @ asc ''o: ''"
definition txt_Endereco_2 :: jsstring where
  "txt_Endereco_2 = asc ''Endere'' @ [0xE7] @ asc ''o 2: ''"
definition txt_Pendencia :: jsstring where
  "txt_Pendencia = asc ''Pend'' @ [0xEA] @ asc ''ncia: ''"

definition converterProduto ::
  "builtins \<Rightarrow> produto \<Rightarrow> mapa \<Rightarrow> nat \<Rightarrow> erro + (saida \<times> evento list)" where
  "converterProduto B produtoAtual mapa index =
     (let vazio = Str [];
          catalogo = obterValorSeguro B produtoAtual
                       (nomes_ou (catalogo mapa) [nome_Catalogo, asc ''Catalogo'']) vazio;
          codigo0 = obterValorSeguro B produtoAtual
                       (nomes_ou (codigo mapa) [nome_Codigo, asc ''Codigo'']) vazio;
          codigo = (if truthy codigo0 then Str (ToString B codigo0) else Str [])
      in case extrairDescricao B produtoAtual index of
           Inl e \<Rightarrow> Inl (ErroAoConverter (dec (index + 1)) e)
         | Inr (descricao0, eventos0) \<Rightarrow>
            (let descricao = (if estaVazio descricao0
                              then Str (asc ''Produto '' @ dec (index + 1)) else descricao0);
                 eventos = (if estaVazio descricao0
                            then eventos0 @ [AvisoDescricaoPadrao (index + 1)
                                               (asc ''Produto '' @ dec (index + 1))]
                            else eventos0);
                 unidade = obterValorSeguro B produtoAtual
                             (nomes_ou (unidade mapa) [asc ''Unidade'']) vazio;
                 ncm = obterValorSeguro B produtoAtual
                         (nomes_ou (ncm mapa)
                            [asc ''NCM'', nome_Classificacao_Fiscal, asc ''Classificacao Fiscal''])
                         vazio;
                 precoVarejo = obterValorSeguro B produtoAtual
                                 (nomes_ou (precoVarejo mapa)
                                    [nome_Preco_Varejo, asc ''Preco Varejo'']) vazio;
                 precoAtacado = obterValorSeguro B produtoAtual
                                  (nomes_ou (precoAtacado mapa)
                                     [nome_Preco_Atacado, asc ''Preco Atacado'']) vazio;
                 precoPromocao = obterValorSeguro B produtoAtual
                                   (nomes_ou (precoPromocao mapa)
                                      [nome_Preco_Promocao, asc ''Preco Promocao'']) vazio;
                 estoque = obterValorSeguro B produtoAtual
                             (nomes_ou (estoque mapa) [asc ''Saldo Estoque'', asc ''Estoque''])
                             vazio;
                 precoCompra = obterValorSeguro B produtoAtual
                                 (nomes_ou (precoCompra mapa)
                                    [nome_Preco_Compra, asc ''Preco Compra'']) vazio;
                 codigoOriginal = obterValorSeguro B produtoAtual
                                    (nomes_ou (codigoOriginal mapa)
                                       [nome_Codigo_Original, asc ''Codigo Original'']) vazio;
                 fornecedor = obterValorSeguro B produtoAtual
                                (nomes_ou (fornecedor mapa) [asc ''Fornecedor'']) vazio;
                 endereco = obterValorSeguro B produtoAtual
                              (nomes_ou (endereco mapa) [nome_Endereco, asc ''Endereco'']) vazio;
                 endereco2 = obterValorSeguro B produtoAtual
                               (nomes_ou (endereco2 mapa) [nome_Endereco_2, asc ''Endereco 2''])
                               vazio;
                 garantia = obterValorSeguro B produtoAtual
                              (nomes_ou (garantia mapa) [asc ''Garantia'']) vazio;
                 pendencia = obterValorSeguro B produtoAtual
                               (nomes_ou (pendencia mapa) [nome_Pendencia, asc ''Pendencia''])
                               vazio;
                 linha = obterValorSeguro B produtoAtual
                           (nomes_ou (linha mapa) [asc ''Linha'']) vazio;
                 grupo = obterValorSeguro B produtoAtual
                           (nomes_ou (grupo mapa) [asc ''Grupo'']) vazio;
                 observacoes =
                   (if \<not> estaVazio precoAtacado
                    then txt_Preco_atacado @ ToString B precoAtacado @ asc ''; '' else [])
                   @ (if \<not> estaVazio precoPromocao
                      then txt_Preco_promocao @ ToString B precoPromocao @ asc ''; '' else []);
                 infoAdicionais =
                   (if \<not> estaVazio endereco2
                    then txt_Endereco_2 @ ToString B endereco2 @ asc ''; '' else [])
                   @ (if \<not> estaVazio pendencia
                      then txt_Pendencia @ ToString B pendencia @ asc ''; '' else [])
             in Inr (\<lparr> ID = Num (Fin (of_nat (index + 1))),
                       Codigo = codigo,
                       Descricao = descricao,
                       Unidade = unidade,
                       NCM = ncm,
                       Preco = parseNumero B precoVarejo (Num (Fin 0)),
                       Observacoes = observacoes,
                       Estoque = parseNumero B estoque (Num (Fin 0)),
                       Preco_de_custo = parseNumero B precoCompra (Num (Fin 0)),
                       Cod_no_fornecedor = codigoOriginal,
                       Fornecedor = fornecedor,
                       Localizacao = endereco,
                       Grupo_de_produtos = linha,
                       Meses_Garantia_no_Fornecedor = garantia,
                       Departamento = grupo,
                       Preco_de_compra = parseNumero B precoCompra (Num (Fin 0)),
                       Informacoes_Adicionais = infoAdicionais \<rparr>, eventos)))"

section \<open>Reading the result of a conversion\<close>




section \<open>conversor-final-corrigido-v2.js: the loop over the rows\<close>

text \<open>
  The counters and lists of \<open>iniciar\<close>. An element of the array of rows is a row object or
  something that is not an object (\<open>None\<close>). The warnings keep the position and the code of
  the product; the errors keep the position and the error.
\<close>

record 'a estado =
  produtosNovos :: "saida list"
  sucessos :: nat
  falhas :: nat
  erros :: "(nat \<times> erro) list"
  avisosDescricaoVazia :: "'a list"
  console :: "evento list"

definition estado_inicial :: "'a estado" where
  "estado_inicial = \<lparr> produtosNovos = [], sucessos = 0, falhas = 0, erros = [],
                       avisosDescricaoVazia = [], console = [] \<rparr>"

text \<open>The handler of the loop: the error is printed, recorded and counted.\<close>

definition falha :: "nat \<Rightarrow> erro \<Rightarrow> 'a estado \<Rightarrow> 'a estado" where
  "falha index e st =
     st\<lparr> console := console st @ [ErroAoProcessar (index + 1) e],
         erros := erros st @ [(index + 1, e)],
         falhas := falhas st + 1 \<rparr>"

definition passo ::
  "builtins \<Rightarrow> mapa \<Rightarrow> nat \<Rightarrow> produto option \<Rightarrow> (nat \<times> jsval) estado \<Rightarrow> (nat \<times> jsval) estado" where
  "passo B mapaColunasEncontradas index produtoRaw st = (case produtoRaw of
      None \<Rightarrow> falha index ProdutoInvalido st
    | Some p \<Rightarrow>
       (case converterProduto B p mapaColunasEncontradas index of
          Inl e \<Rightarrow> falha index e st
        | Inr (produtoNovo, eventos) \<Rightarrow>
            st\<lparr> console := console st @ eventos,
                avisosDescricaoVazia :=
                  (if estaVazio (Descricao produtoNovo)
                   then avisosDescricaoVazia st @
                          [(index + 1,
                            if truthy (Codigo produtoNovo) then Codigo produtoNovo
                            else Str (asc ''Item #'' @ dec (index + 1)))]
                   else avisosDescricaoVazia st),
                produtosNovos := produtosNovos st @ [produtoNovo],
                sucessos := sucessos st + 1 \<rparr>))"

fun processar ::
  "builtins \<Rightarrow> mapa \<Rightarrow> nat \<Rightarrow> produto option list \<Rightarrow> (nat \<times> jsval) estado
     \<Rightarrow> (nat \<times> jsval) estado" where
  "processar B mapaColunasEncontradas index [] st = st"
| "processar B mapaColunasEncontradas index (produtoRaw # resto) st =
     processar B mapaColunasEncontradas (index + 1) resto
       (passo B mapaColunasEncontradas index produtoRaw st)"

section \<open>conversor-final-corrigido.js: converting a product\<close>

text \<open>
  The script before the second version: the same \<open>normalizar\<close>, \<open>encontrarColuna\<close>,
  \<open>obterValorSeguro\<close>, \<open>estaVazio\<close> and \<open>parseNumero\<close>; the description comes from the
  description column or from the code, and then the code keeps its first part only.
  Nothing in the body throws on these values.
\<close>

definition converterProduto_final ::
  "builtins \<Rightarrow> produto \<Rightarrow> mapa \<Rightarrow> nat \<Rightarrow> saida \<times> evento list" where
  "converterProduto_final B produtoAtual mapa index =
     (let vazio = Str [];
          catalogo = obterValorSeguro B produtoAtual
                       (nomes_ou (catalogo mapa) [nome_Catalogo, asc ''Catalogo'']) vazio;
          codigo0 = obterValorSeguro B produtoAtual
                       (nomes_ou (codigo mapa) [nome_Codigo, asc ''Codigo'']) vazio;
          codigo1 = (if truthy codigo0 then ToString B codigo0 else []);
          descricao0 = obterValorSeguro B produtoAtual
                         (nomes_ou (descricao mapa)
                            [nome_Descricao, asc ''Descricao'', asc ''Descr'']) vazio;
          inferir = (estaVazio descricao0 \<and> \<not> estaVazio (Str codigo1)
                     \<and> str_includes codigo1 [0x20]);
          partes = str_split codigo1 0x20;
          codigoPuro = (case partes of [] \<Rightarrow> Undefined | p # r \<Rightarrow> Str p);
          descricao = (if inferir then Str (str_join (drop 1 partes) 0x20) else descricao0);
          eventos = (if inferir
                     then [InferindoDescricao (index + 1) catalogo codigo1 codigoPuro
                             (str_join (drop 1 partes) 0x20)]
                     else []);
          codigo = (if inferir then codigoPuro else Str codigo1);
          unidade = obterValorSeguro B produtoAtual
                      (nomes_ou (unidade mapa) [asc ''Unidade'']) vazio;
          ncm = obterValorSeguro B produtoAtual
                  (nomes_ou (ncm mapa)
                     [asc ''NCM'', nome_Classificacao_Fiscal, asc ''Classificacao Fiscal''])
                  vazio;
          precoVarejo = obterValorSeguro B produtoAtual
                          (nomes_ou (precoVarejo mapa)
                             [nome_Preco_Varejo, asc ''Preco Varejo'']) vazio;
          precoAtacado = obterValorSeguro B produtoAtual
                           (nomes_ou (precoAtacado mapa)
                              [nome_Preco_Atacado, asc ''Preco Atacado'']) vazio;
          precoPromocao = obterValorSeguro B produtoAtual
                            (nomes_ou (precoPromocao mapa)
                               [nome_Preco_Promocao, asc ''Preco Promocao'']) vazio;
          estoque = obterValorSeguro B produtoAtual
                      (nomes_ou (estoque mapa) [asc ''Saldo Estoque'', asc ''Estoque''])
                      vazio;
          precoCompra = obterValorSeguro B produtoAtual
                          (nomes_ou (precoCompra mapa)
                             [nome_Preco_Compra, asc ''Preco Compra'']) vazio;
          codigoOriginal = obterValorSeguro B produtoAtual
                             (nomes_ou (codigoOriginal mapa)
                                [nome_Codigo_Original, asc ''Codigo Original'']) vazio;
          fornecedor = obterValorSeguro B produtoAtual
                         (nomes_ou (fornecedor mapa) [asc ''Fornecedor'']) vazio;
          endereco = obterValorSeguro B produtoAtual
                       (nomes_ou (endereco mapa) [nome_Endereco, asc ''Endereco'']) vazio;
          endereco2 = obterValorSeguro B produtoAtual
                        (nomes_ou (endereco2 mapa) [nome_Endereco_2, asc ''Endereco 2''])
                        vazio;
          garantia = obterValorSeguro B produtoAtual
                       (nomes_ou (garantia mapa) [asc ''Garantia'']) vazio;
          pendencia = obterValorSeguro B produtoAtual
                        (nomes_ou (pendencia mapa) [nome_Pendencia, asc ''Pendencia''])
                        vazio;
          linha = obterValorSeguro B produtoAtual
                    (nomes_ou (linha mapa) [asc ''Linha'']) vazio;
          grupo = obterValorSeguro B produtoAtual
                    (nomes_ou (grupo mapa) [asc ''Grupo'']) vazio;
          observacoes =
            (if \<not> estaVazio precoAtacado
             then txt_Preco_atacado @ ToString B precoAtacado @ asc ''; '' else [])
            @ (if \<not> estaVazio precoPromocao
               then txt_Preco_promocao @ ToString B precoPromocao @ asc ''; '' else []);
          infoAdicionais =
            (if \<not> estaVazio endereco2
             then txt_Endereco_2 @ ToString B endereco2 @ asc ''; '' else [])
            @ (if \<not> estaVazio pendencia
               then txt_Pendencia @ ToString B pendencia @ asc ''; '' else [])
      in (\<lparr> ID = Num (Fin (of_nat (index + 1))),
            Codigo = codigo,
            Descricao = descricao,
            Unidade = unidade,
            NCM = ncm,
            Preco = parseNumero B precoVarejo (Num (Fin 0)),
            Observacoes = observacoes,
            Estoque = parseNumero B estoque (Num (Fin 0)),
            Preco_de_custo = parseNumero B precoCompra (Num (Fin 0)),
            Cod_no_fornecedor = codigoOriginal,
            Fornecedor = fornecedor,
            Localizacao = endereco,
            Grupo_de_produtos = linha,
            Meses_Garantia_no_Fornecedor = garantia,
            Departamento = grupo,
            Preco_de_compra = parseNumero B precoCompra (Num (Fin 0)),
            Informacoes_Adicionais = infoAdicionais \<rparr>, eventos))"

section \<open>conversor-simples.js\<close>

text \<open>
  The first script: a value is read under one exact header, a number may have a decimal
  comma, and a product with no code is refused.
\<close>

definition parseNumero_simples :: "builtins \<Rightarrow> jsval \<Rightarrow> jsval \<Rightarrow> jsval" where
  "parseNumero_simples B valor valorPadrao =
     (if valor = Undefined \<or> valor = Null \<or> valor = Str [] then valorPadrao
      else (case valor of
              Num n \<Rightarrow> if n = NaN then valorPadrao else valor
            | _ \<Rightarrow>
               (let valorConvertido = StringToNumber (replace_first 0x2C 0x2E (ToString B valor))
                in if valorConvertido = NaN then valorPadrao else Num valorConvertido)))"

definition obterValorSeguro_simples :: "produto option \<Rightarrow> jsstring \<Rightarrow> jsval \<Rightarrow> jsval" where
  "obterValorSeguro_simples obj chave valorPadrao = (case obj of
      None \<Rightarrow> valorPadrao
    | Some p \<Rightarrow>
        if propriedade p chave = Undefined \<or> propriedade p chave = Null then valorPadrao
        else propriedade p chave)"

definition converterProduto_simples ::
  "builtins \<Rightarrow> produto option \<Rightarrow> erro + (saida \<times> evento list)" where
  "converterProduto_simples B produtoAtual = (case produtoAtual of
      None \<Rightarrow> Inl ProdutoInvalido
    | Some p \<Rightarrow>
       (let vazio = Str [];
            obter = (\<lambda>chave. obterValorSeguro_simples produtoAtual chave vazio)
        in if \<not> truthy (obter nome_Codigo)
           then Inl (ErroAoConverter
                       (ToString B (obterValorSeguro_simples produtoAtual nome_Codigo
                                      (Str (asc ''desconhecido''))))
                       CampoCodigoObrigatorio)
           else
            (let eventos = (if \<not> truthy (obter nome_Descricao)
                            then [AvisoDescricaoVazia (obter nome_Codigo)] else []);
                 precoAtacado = obter nome_Preco_Atacado;
                 precoPromocao = obter nome_Preco_Promocao;
                 observacoes =
                   (if truthy precoAtacado
                    then txt_Preco_atacado @ ToString B precoAtacado @ asc ''; '' else [])
                   @ (if truthy precoPromocao
                      then txt_Preco_promocao @ ToString B precoPromocao @ asc ''; '' else []);
                 endereco2 = obter nome_Endereco_2;
                 pendencia = obter nome_Pendencia;
                 infoAdicionais =
                   (if truthy endereco2
                    then txt_Endereco_2 @ ToString B endereco2 @ asc ''; '' else [])
                   @ (if truthy pendencia
                      then txt_Pendencia @ ToString B pendencia @ asc ''; '' else [])
             in Inr (\<lparr> ID = Null,
                       Codigo = obter nome_Codigo,
                       Descricao = obter nome_Descricao,
                       Unidade = obter (asc ''Unidade''),
                       NCM = obter nome_Classificacao_Fiscal,
                       Preco = parseNumero_simples B (propriedade p nome_Preco_Varejo) (Num (Fin 0)),
                       Observacoes = observacoes,
                       Estoque = parseNumero_simples B (propriedade p (asc ''Saldo Estoque''))
                                   (Num (Fin 0)),
                       Preco_de_custo = parseNumero_simples B (propriedade p nome_Preco_Compra)
                                          (Num (Fin 0)),
                       Cod_no_fornecedor = obter nome_Codigo_Original,
                       Fornecedor = obter (asc ''Fornecedor''),
                       Localizacao = obter nome_Endereco,
                       Grupo_de_produtos = obter (asc ''Linha''),
                       Meses_Garantia_no_Fornecedor = obter (asc ''Garantia''),
                       Departamento = obter (asc ''Grupo''),
                       Preco_de_compra = parseNumero_simples B (propriedade p nome_Preco_Compra)
                                           (Num (Fin 0)),
                       Informacoes_Adicionais = infoAdicionais \<rparr>, eventos))))"

text \<open>
  The loop of \<open>iniciar\<close>: the warning for an empty description is recorded before the
  conversion, and the position becomes the ID of a converted product.
\<close>

definition passo_simples ::
  "builtins \<Rightarrow> nat \<Rightarrow> produto option \<Rightarrow> nat estado \<Rightarrow> nat estado" where
  "passo_simples B index produtoRaw st =
     (let st1 = (if \<not> truthy (obterValorSeguro_simples produtoRaw nome_Descricao (Str []))
                 then st\<lparr> avisosDescricaoVazia := avisosDescricaoVazia st @ [index + 1] \<rparr>
                 else st)
      in case converterProduto_simples B produtoRaw of
           Inl e \<Rightarrow> falha index e st1
         | Inr (produtoNovo, eventos) \<Rightarrow>
             st1\<lparr> console := console st1 @ eventos,
                  produtosNovos := produtosNovos st1
                                     @ [produtoNovo\<lparr> ID := Num (Fin (of_nat (index + 1))) \<rparr>],
                  sucessos := sucessos st1 + 1 \<rparr>)"

fun processar_simples ::
  "builtins \<Rightarrow> nat \<Rightarrow> produto option list \<Rightarrow> nat estado \<Rightarrow> nat estado" where
  "processar_simples B index [] st = st"
| "processar_simples B index (produtoRaw # resto) st =
     processar_simples B (index + 1) resto (passo_simples B index produtoRaw st)"

section \<open>The description as the specification words it\<close>






text \<open>A column map with no column found.\<close>

definition mapa_vazio :: mapa where
  "mapa_vazio = \<lparr> catalogo = None, codigo = None, descricao = None, unidade = None,
                  ncm = None, precoVarejo = None, precoAtacado = None, precoPromocao = None,
                  estoque = None, precoCompra = None, codigoOriginal = None, endereco = None,
                  endereco2 = None, fornecedor = None, garantia = None, pendencia = None,
                  linha = None, grupo = None \<rparr>"

section \<open>An instance of the library functions\<close>

text \<open>
  For evaluating the scripts on concrete rows: NFD and \<open>toLowerCase\<close> on strings of Basic
  Latin and Latin-1 characters (code units below U+0100), where both work character by
  character, and the decimal digits of a non-negative whole number. The instance is applied
  to such strings and numbers only; on others these functions are not those of the
  language.
\<close>

definition nfd_latin1_tabela :: "(jschar \<times> jsstring) list" where
  "nfd_latin1_tabela =
    [(192, [65, 768]), (193, [65, 769]), (194, [65, 770]), (195, [65, 771]),
     (196, [65, 776]), (197, [65, 778]), (199, [67, 807]), (200, [69, 768]),
     (201, [69, 769]), (202, [69, 770]), (203, [69, 776]), (204, [73, 768]),
     (205, [73, 769]), (206, [73, 770]), (207, [73, 776]), (209, [78, 771]),
     (210, [79, 768]), (211, [79, 769]), (212, [79, 770]), (213, [79, 771]),
     (214, [79, 776]), (217, [85, 768]), (218, [85, 769]), (219, [85, 770]),
     (220, [85, 776]), (221, [89, 769]), (224, [97, 768]), (225, [97, 769]),
     (226, [97, 770]), (227, [97, 771]), (228, [97, 776]), (229, [97, 778]),
     (231, [99, 807]), (232, [101, 768]), (233, [101, 769]), (234, [101, 770]),
     (235, [101, 776]), (236, [105, 768]), (237, [105, 769]), (238, [105, 770]),
     (239, [105, 776]), (241, [110, 771]), (242, [111, 768]), (243, [111, 769]),
     (244, [111, 770]), (245, [111, 771]), (246, [111, 776]), (249, [117, 768]),
     (250, [117, 769]), (251, [117, 770]), (252, [117, 776]), (253, [121, 769]),
     (255, [121, 776])]"

definition nfd_latin1 :: "jsstring \<Rightarrow> jsstring" where
  "nfd_latin1 s =
     concat (map (\<lambda>c. if c < 192 then [c]
                       else (case map_of nfd_latin1_tabela c of None \<Rightarrow> [c] | Some d \<Rightarrow> d)) s)"

definition lower_latin1 :: "jsstring \<Rightarrow> jsstring" where
  "lower_latin1 s =
     map (\<lambda>c. if (65 \<le> c \<and> c \<le> 90) \<or> (192 \<le> c \<and> c \<le> 222 \<and> c \<noteq> 215)
               then c + 32 else c) s"

definition numero_inteiro :: "jsnum \<Rightarrow> jsstring" where
  "numero_inteiro n = (case n of
      NaN \<Rightarrow> asc ''NaN''
    | PosInf \<Rightarrow> asc ''Infinity''
    | NegInf \<Rightarrow> asc ''-Infinity''
    | Fin q \<Rightarrow> dec (nat \<lfloor>q\<rfloor>))"

definition latin1 :: builtins where
  "latin1 = \<lparr> normalizeNFD = nfd_latin1, toLowerCase = lower_latin1,
              numberToString = numero_inteiro \<rparr>"

section \<open>Example rows\<close>

text \<open>Rows and lists of names on which the properties below are instantiated.\<close>

definition nomes_codigo :: "jsstring list" where
  "nomes_codigo = [nome_Codigo, asc ''Codigo'']"

definition linha_dois_codigos :: produto where
  "linha_dois_codigos = [(asc ''Codigo'', Str (asc ''7'')), (nome_Codigo, Str (asc ''8''))]"

definition linha_codigo_maiusculo :: produto where
  "linha_codigo_maiusculo =
     [(asc ''Nome'', Str []), (asc '' CODIGO'', Str (asc ''7'')), (asc ''codigo'', Str (asc ''8''))]"

definition linha_sem_codigo :: produto where
  "linha_sem_codigo = [(asc ''Nome'', Str [])]"

definition linha_codigo_vazio :: produto where
  "linha_codigo_vazio = [(nome_Codigo, Str []), (nome_Descricao, Str (asc ''Parafuso''))]"






definition linha_parafuso :: produto where
  "linha_parafuso =
     [(nome_Codigo, Str (asc ''123 Parafuso Phillips'')),
      (nome_Preco_Varejo, Str (asc ''10,50''))]"



section \<open>The notes as the specification words them\<close>



section \<open>Properties of the column lookup\<close>







text \<open>The definitions unfolded to evaluate a lookup on a concrete row.\<close>

lemmas avalia =
  asc_def normalizar_def latin1_def nfd_latin1_def nfd_latin1_tabela_def lower_latin1_def
  trim_def is_ws_def hasOwnProperty_def Object_keys_def nome_Codigo_def


lemma encontrarColuna_exemplos:
  "encontrarColuna latin1 linha_dois_codigos nomes_codigo = Some nome_Codigo"
  "encontrarColuna latin1 linha_codigo_maiusculo nomes_codigo = Some (asc '' CODIGO'')"
  by (simp_all add: encontrarColuna_def nomes_codigo_def linha_dois_codigos_def linha_codigo_maiusculo_def avalia Let_def)

section \<open>conversor-final-corrigido-v2.js: extraction never fails\<close>

lemma reduce_nao_vazio: "xs \<noteq> [] \<Longrightarrow> \<exists>y. reduce f xs = Inr y"
  by (cases xs) (simp_all add: reduce_def)

lemma extrairDescricao_total: "\<exists>d ev. extrairDescricao B p i = Inr (d, ev)"
proof (cases "metodo1 B p colunasDescricao")
  case (Some d)
  then show ?thesis by (simp add: extrairDescricao_def)
next
  case m1: None
  show ?thesis
  proof (cases "metodo2 B p (Object_keys p)")
    case (Some cv)
    with m1 show ?thesis by (cases cv) (simp add: extrairDescricao_def)
  next
    case m2: None
    show ?thesis
    proof (cases "metodo3 B p")
      case (Some d)
      with m1 m2 show ?thesis by (simp add: extrairDescricao_def)
    next
      case m3: None
      show ?thesis
      proof (cases "possiveisCamposDescricao p (Object_keys p)")
        case Nil
        with m1 m2 m3 show ?thesis by (simp add: extrairDescricao_def)
      next
        case (Cons c cs)
        with m1 m2 m3 show ?thesis by (simp add: extrairDescricao_def reduce_def)
      qed
    qed
  qed
qed



lemma parseNumero_numero: "\<exists>n. parseNumero B v (Num (Fin 0)) = Num n \<and> n \<noteq> NaN"
  by (auto simp: parseNumero_def Let_def split: jsval.splits)


lemma converterProduto_campos:
  assumes "extrairDescricao B p i = Inr (d, ev)"
  shows "\<exists>r ev'. converterProduto B p m i = Inr (r, ev')
     \<and> Descricao r = (if estaVazio d then Str (asc ''Produto '' @ dec (i + 1)) else d)
     \<and> Unidade r = obterValorSeguro B p (nomes_ou (unidade m) [asc ''Unidade'']) (Str [])
     \<and> NCM r = obterValorSeguro B p (nomes_ou (ncm m)
                  [asc ''NCM'', nome_Classificacao_Fiscal, asc ''Classificacao Fiscal'']) (Str [])
     \<and> Cod_no_fornecedor r = obterValorSeguro B p (nomes_ou (codigoOriginal m)
                  [nome_Codigo_Original, asc ''Codigo Original'']) (Str [])
     \<and> Fornecedor r = obterValorSeguro B p (nomes_ou (fornecedor m) [asc ''Fornecedor'']) (Str [])
     \<and> Localizacao r = obterValorSeguro B p (nomes_ou (endereco m)
                  [nome_Endereco, asc ''Endereco'']) (Str [])
     \<and> Grupo_de_produtos r = obterValorSeguro B p (nomes_ou (linha m) [asc ''Linha'']) (Str [])
     \<and> Meses_Garantia_no_Fornecedor r =
          obterValorSeguro B p (nomes_ou (garantia m) [asc ''Garantia'']) (Str [])
     \<and> Departamento r = obterValorSeguro B p (nomes_ou (grupo m) [asc ''Grupo'']) (Str [])
     \<and> Preco r = parseNumero B (obterValorSeguro B p (nomes_ou (precoVarejo m)
                  [nome_Preco_Varejo, asc ''Preco Varejo'']) (Str [])) (Num (Fin 0))
     \<and> Estoque r = parseNumero B (obterValorSeguro B p (nomes_ou (estoque m)
                  [asc ''Saldo Estoque'', asc ''Estoque'']) (Str [])) (Num (Fin 0))
     \<and> Preco_de_custo r = parseNumero B (obterValorSeguro B p (nomes_ou (precoCompra m)
                  [nome_Preco_Compra, asc ''Preco Compra'']) (Str [])) (Num (Fin 0))
     \<and> Preco_de_compra r = parseNumero B (obterValorSeguro B p (nomes_ou (precoCompra m)
                  [nome_Preco_Compra, asc ''Preco Compra'']) (Str [])) (Num (Fin 0))"
  using assms by (simp add: converterProduto_def Let_def)





section \<open>conversor-final-corrigido-v2.js: rows in, records and failures out\<close>

lemma converterProduto_ID:
  "converterProduto B p m i = Inr (r, ev) \<Longrightarrow> ID r = Num (Fin (of_nat (i + 1)))"
  by (auto simp: converterProduto_def Let_def split: sum.splits prod.splits)

lemma passo_casos:
  "(produtosNovos (passo B m i x st) = produtosNovos st
      \<and> falhas (passo B m i x st) = falhas st + 1
      \<and> sucessos (passo B m i x st) = sucessos st
      \<and> length (erros (passo B m i x st)) = length (erros st) + 1)
   \<or> (\<exists>r. produtosNovos (passo B m i x st) = produtosNovos st @ [r]
          \<and> ID r = Num (Fin (of_nat (i + 1)))
          \<and> falhas (passo B m i x st) = falhas st
          \<and> sucessos (passo B m i x st) = sucessos st + 1
          \<and> erros (passo B m i x st) = erros st)"
proof (cases x)
  case None
  then show ?thesis by (simp add: passo_def falha_def)
next
  case (Some p)
  show ?thesis
  proof (cases "converterProduto B p m i")
    case (Inl e)
    with Some show ?thesis by (simp add: passo_def falha_def)
  next
    case (Inr re)
    obtain r ev where re: "re = (r, ev)" by (cases re)
    with Inr have "ID r = Num (Fin (of_nat (i + 1)))" by (simp add: converterProduto_ID)
    with Some Inr re show ?thesis by (simp add: passo_def)
  qed
qed

lemma processar_invariante:
  "length (produtosNovos (processar B m i xs st)) + falhas (processar B m i xs st)
     = length (produtosNovos st) + falhas st + length xs
   \<and> (sucessos st = length (produtosNovos st) \<longrightarrow>
        sucessos (processar B m i xs st) = length (produtosNovos (processar B m i xs st)))
   \<and> (length (erros st) = falhas st \<longrightarrow>
        length (erros (processar B m i xs st)) = falhas (processar B m i xs st))
   \<and> (\<exists>ks. map ID (produtosNovos (processar B m i xs st))
              = map ID (produtosNovos st) @ map (\<lambda>k. Num (Fin (of_nat k))) ks
           \<and> sorted_wrt (<) ks \<and> set ks \<subseteq> {i + 1 .. i + length xs})"
proof (induction xs arbitrary: i st)
  case Nil
  have "map ID (produtosNovos st) = map ID (produtosNovos st) @ map (\<lambda>k. Num (Fin (of_nat k))) []
           \<and> sorted_wrt (<) ([] :: nat list) \<and> set [] \<subseteq> {i + 1 .. i + length ([] :: produto option list)}"
    by simp
  then show ?case by (simp del: append_Nil2 list.map)
next
  case (Cons x xs)
  let ?st = "passo B m i x st"
  note ih = Cons.IH [of "i + 1" ?st]
  from ih obtain ks where ks:
    "map ID (produtosNovos (processar B m (i + 1) xs ?st))
       = map ID (produtosNovos ?st) @ map (\<lambda>k. Num (Fin (of_nat k))) ks"
    "sorted_wrt (<) ks" "set ks \<subseteq> {i + 1 + 1 .. i + 1 + length xs}" by blast
  from passo_casos [of B m i x st] show ?case
  proof
    assume f: "produtosNovos ?st = produtosNovos st
      \<and> falhas ?st = falhas st + 1
      \<and> sucessos ?st = sucessos st
      \<and> length (erros ?st) = length (erros st) + 1"
    from ks f have "map ID (produtosNovos (processar B m i (x # xs) st))
              = map ID (produtosNovos st) @ map (\<lambda>k. Num (Fin (of_nat k))) ks
           \<and> sorted_wrt (<) ks \<and> set ks \<subseteq> {i + 1 .. i + length (x # xs)}"
      by auto
    then have "\<exists>ks. map ID (produtosNovos (processar B m i (x # xs) st))
              = map ID (produtosNovos st) @ map (\<lambda>k. Num (Fin (of_nat k))) ks
           \<and> sorted_wrt (<) ks \<and> set ks \<subseteq> {i + 1 .. i + length (x # xs)}" by blast
    with ih f show ?thesis by simp
  next
    assume "\<exists>r. produtosNovos ?st = produtosNovos st @ [r]
          \<and> ID r = Num (Fin (of_nat (i + 1)))
          \<and> falhas ?st = falhas st
          \<and> sucessos ?st = sucessos st + 1
          \<and> erros ?st = erros st"
    then obtain r where s: "produtosNovos ?st = produtosNovos st @ [r]"
          "ID r = Num (Fin (of_nat (i + 1)))"
          "falhas ?st = falhas st"
          "sucessos ?st = sucessos st + 1"
          "erros ?st = erros st" by blast
    from ks(3) have "\<forall>k \<in> set ks. i + 1 < k" by auto
    with ks s have "map ID (produtosNovos (processar B m i (x # xs) st))
              = map ID (produtosNovos st) @ map (\<lambda>k. Num (Fin (of_nat k))) ((i + 1) # ks)
           \<and> sorted_wrt (<) ((i + 1) # ks) \<and> set ((i + 1) # ks) \<subseteq> {i + 1 .. i + length (x # xs)}"
      by auto
    then have "\<exists>ks. map ID (produtosNovos (processar B m i (x # xs) st))
              = map ID (produtosNovos st) @ map (\<lambda>k. Num (Fin (of_nat k))) ks
           \<and> sorted_wrt (<) ks \<and> set ks \<subseteq> {i + 1 .. i + length (x # xs)}" by blast
    with ih s show ?thesis by simp
  qed
qed

text \<open>
  Claim C5. For every run of the loop of \<open>iniciar\<close> over any sequence of rows, each row
  either adds exactly one record to the output or adds one to the count of failures: the
  number of output records plus the number of failed rows is the number of input rows.
  The successes counted are the records, the errors recorded are the failures, and the
  IDs of the records are positions of rows, between 1 and the number of rows, strictly
  increasing, so no row is merged with another or converted twice.
\<close>

theorem processar_conta_linhas:
  "length (produtosNovos (processar B m 0 rows estado_inicial))
     + falhas (processar B m 0 rows estado_inicial) = length rows
   \<and> sucessos (processar B m 0 rows estado_inicial)
       = length (produtosNovos (processar B m 0 rows estado_inicial))
   \<and> length (erros (processar B m 0 rows estado_inicial))
       = falhas (processar B m 0 rows estado_inicial)
   \<and> (\<exists>ks. map ID (produtosNovos (processar B m 0 rows estado_inicial))
              = map (\<lambda>k. Num (Fin (of_nat k))) ks
           \<and> sorted_wrt (<) ks \<and> set ks \<subseteq> {1 .. length rows})"
  using processar_invariante [of B m 0 rows estado_inicial]
  by (simp add: estado_inicial_def)


theorem processar_conta_linhas_witness:
  "length (produtosNovos (processar latin1 mapa_vazio 0 [Some linha_sem_codigo, None]
                            estado_inicial))
     + falhas (processar latin1 mapa_vazio 0 [Some linha_sem_codigo, None] estado_inicial)
   = length [Some linha_sem_codigo, None]"
  using processar_conta_linhas [of latin1 mapa_vazio "[Some linha_sem_codigo, None]"]
  by (rule conjunct1)


section \<open>The two price columns\<close>

lemma converterProduto_simples_precos:
  "converterProduto_simples B (Some p) = Inr (r, ev) \<Longrightarrow>
     Preco_de_custo r = parseNumero_simples B (propriedade p nome_Preco_Compra) (Num (Fin 0))
     \<and> Preco_de_compra r = parseNumero_simples B (propriedade p nome_Preco_Compra) (Num (Fin 0))"
  by (auto simp: converterProduto_simples_def Let_def split: if_splits)

lemma converterProduto_final_precos:
  "Preco_de_custo (fst (converterProduto_final B p m i))
     = parseNumero B (obterValorSeguro B p (nomes_ou (precoCompra m)
                  [nome_Preco_Compra, asc ''Preco Compra'']) (Str [])) (Num (Fin 0))
   \<and> Preco_de_compra (fst (converterProduto_final B p m i))
     = parseNumero B (obterValorSeguro B p (nomes_ou (precoCompra m)
                  [nome_Preco_Compra, asc ''Preco Compra'']) (Str [])) (Num (Fin 0))"
  by (simp add: converterProduto_final_def Let_def)

lemma converterProduto_precos:
  assumes "converterProduto B p m i = Inr (r, ev)"
  shows "Preco_de_custo r
     = parseNumero B (obterValorSeguro B p (nomes_ou (precoCompra m)
                  [nome_Preco_Compra, asc ''Preco Compra'']) (Str [])) (Num (Fin 0))
   \<and> Preco_de_compra r
     = parseNumero B (obterValorSeguro B p (nomes_ou (precoCompra m)
                  [nome_Preco_Compra, asc ''Preco Compra'']) (Str [])) (Num (Fin 0))"
proof -
  obtain d ev0 where "extrairDescricao B p i = Inr (d, ev0)"
    using extrairDescricao_total by blast
  from converterProduto_campos [OF this, of m] assms show ?thesis by auto
qed

lemma parseNumero_simples_numero: "\<exists>n. parseNumero_simples B v (Num (Fin 0)) = Num n \<and> n \<noteq> NaN"
  by (auto simp: parseNumero_simples_def Let_def split: jsval.splits)

text \<open>
  Claim C10. In every record that one of the three converters produces, the column
  Preco de custo equals the column Preco de compra: both are the purchase price of
  the row parsed with the default 0, and so a number that is not \<open>NaN\<close>.
\<close>

theorem preco_de_custo_igual_preco_de_compra:
  "(converterProduto B p m i = Inr (r, ev) \<longrightarrow>
      Preco_de_custo r = Preco_de_compra r
      \<and> Preco_de_compra r
          = parseNumero B (obterValorSeguro B p (nomes_ou (precoCompra m)
                [nome_Preco_Compra, asc ''Preco Compra'']) (Str [])) (Num (Fin 0))
      \<and> (\<exists>n. Preco_de_compra r = Num n \<and> n \<noteq> NaN))
   \<and> (converterProduto_final B p m i = (r1, ev1) \<longrightarrow>
      Preco_de_custo r1 = Preco_de_compra r1
      \<and> Preco_de_compra r1
          = parseNumero B (obterValorSeguro B p (nomes_ou (precoCompra m)
                [nome_Preco_Compra, asc ''Preco Compra'']) (Str [])) (Num (Fin 0))
      \<and> (\<exists>n. Preco_de_compra r1 = Num n \<and> n \<noteq> NaN))
   \<and> (converterProduto_simples B (Some p) = Inr (r2, ev2) \<longrightarrow>
      Preco_de_custo r2 = Preco_de_compra r2
      \<and> Preco_de_compra r2
          = parseNumero_simples B (propriedade p nome_Preco_Compra) (Num (Fin 0))
      \<and> (\<exists>n. Preco_de_compra r2 = Num n \<and> n \<noteq> NaN))"
proof (intro conjI impI)
  assume a: "converterProduto B p m i = Inr (r, ev)"
  from converterProduto_precos [OF a] show "Preco_de_custo r = Preco_de_compra r" by simp
  from converterProduto_precos [OF a] show "Preco_de_compra r
          = parseNumero B (obterValorSeguro B p (nomes_ou (precoCompra m)
                [nome_Preco_Compra, asc ''Preco Compra'']) (Str [])) (Num (Fin 0))" by simp
  then show "\<exists>n. Preco_de_compra r = Num n \<and> n \<noteq> NaN" by (simp add: parseNumero_numero)
next
  assume a: "converterProduto_final B p m i = (r1, ev1)"
  with converterProduto_final_precos [of B p m i]
  show "Preco_de_custo r1 = Preco_de_compra r1" by simp
  from a converterProduto_final_precos [of B p m i]
  show "Preco_de_compra r1
          = parseNumero B (obterValorSeguro B p (nomes_ou (precoCompra m)
                [nome_Preco_Compra, asc ''Preco Compra'']) (Str [])) (Num (Fin 0))" by simp
  then show "\<exists>n. Preco_de_compra r1 = Num n \<and> n \<noteq> NaN" by (simp add: parseNumero_numero)
next
  assume a: "converterProduto_simples B (Some p) = Inr (r2, ev2)"
  from converterProduto_simples_precos [OF a]
  show "Preco_de_custo r2 = Preco_de_compra r2" by simp
  from converterProduto_simples_precos [OF a]
  show "Preco_de_compra r2
          = parseNumero_simples B (propriedade p nome_Preco_Compra) (Num (Fin 0))" by simp
  then show "\<exists>n. Preco_de_compra r2 = Num n \<and> n \<noteq> NaN"
    by (simp add: parseNumero_simples_numero)
qed

lemma converterProduto_retorna: "\<exists>r ev. converterProduto B p m i = Inr (r, ev)"
proof -
  obtain d ev0 where "extrairDescricao B p i = Inr (d, ev0)"
    using extrairDescricao_total by blast
  from converterProduto_campos [OF this, of m] show ?thesis by blast
qed

lemma converterProduto_simples_Inr:
  "truthy (obterValorSeguro_simples (Some p) nome_Codigo (Str [])) \<Longrightarrow>
     \<exists>r ev. converterProduto_simples B (Some p) = Inr (r, ev)"
  by (simp add: converterProduto_simples_def Let_def)

theorem preco_de_custo_igual_preco_de_compra_witness:
  "\<exists>r ev r1 ev1 r2 ev2.
      converterProduto latin1 linha_dois_codigos mapa_vazio 0 = Inr (r, ev)
      \<and> Preco_de_custo r = Preco_de_compra r
      \<and> converterProduto_final latin1 linha_dois_codigos mapa_vazio 0 = (r1, ev1)
      \<and> Preco_de_custo r1 = Preco_de_compra r1
      \<and> converterProduto_simples latin1 (Some linha_dois_codigos) = Inr (r2, ev2)
      \<and> Preco_de_custo r2 = Preco_de_compra r2"
proof -
  obtain r ev where a: "converterProduto latin1 linha_dois_codigos mapa_vazio 0 = Inr (r, ev)"
    using converterProduto_retorna by blast
  obtain r1 ev1 where b: "converterProduto_final latin1 linha_dois_codigos mapa_vazio 0 = (r1, ev1)"
    by (cases "converterProduto_final latin1 linha_dois_codigos mapa_vazio 0")
  have "truthy (obterValorSeguro_simples (Some linha_dois_codigos) nome_Codigo (Str []))"
    by (simp add: obterValorSeguro_simples_def propriedade_def linha_dois_codigos_def
        nome_Codigo_def asc_def truthy_def)
  then obtain r2 ev2 where c: "converterProduto_simples latin1 (Some linha_dois_codigos) = Inr (r2, ev2)"
    using converterProduto_simples_Inr by blast
  note t = preco_de_custo_igual_preco_de_compra [of latin1 linha_dois_codigos mapa_vazio 0 r ev r1 ev1 r2 ev2]
  from t a have "Preco_de_custo r = Preco_de_compra r" by blast
  moreover from t b have "Preco_de_custo r1 = Preco_de_compra r1" by blast
  moreover from t c have "Preco_de_custo r2 = Preco_de_compra r2" by blast
  ultimately show ?thesis using a b c by blast
qed


section \<open>conversor-simples.js: a row with no code\<close>

lemma converterProduto_simples_sem_codigo:
  assumes "propriedade p nome_Codigo = Str [] \<or> propriedade p nome_Codigo = Undefined
           \<or> propriedade p nome_Codigo = Null"
  shows "\<exists>t. converterProduto_simples B (Some p) = Inl (ErroAoConverter t CampoCodigoObrigatorio)"
  using assms
  by (auto simp: converterProduto_simples_def obterValorSeguro_simples_def truthy_def Let_def)

lemma passo_simples_acrescenta:
  "produtosNovos (passo_simples B j x st)
     = produtosNovos st @ produtosNovos (passo_simples B j x estado_inicial)
   \<and> falhas (passo_simples B j x st) = falhas st + falhas (passo_simples B j x estado_inicial)"
  by (simp add: passo_simples_def falha_def estado_inicial_def Let_def
      split: sum.splits prod.splits)

lemma processar_simples_acrescenta:
  "produtosNovos (processar_simples B j xs st)
     = produtosNovos st @ produtosNovos (processar_simples B j xs estado_inicial)
   \<and> falhas (processar_simples B j xs st)
     = falhas st + falhas (processar_simples B j xs estado_inicial)"
proof (induction xs arbitrary: j st)
  case Nil
  show ?case by (simp add: estado_inicial_def)
next
  case (Cons x xs)
  from Cons.IH [of "j + 1" "passo_simples B j x st"]
    Cons.IH [of "j + 1" "passo_simples B j x estado_inicial"]
    passo_simples_acrescenta [of B j x st]
  show ?case by simp
qed

lemma processar_simples_append:
  "processar_simples B j (xs @ ys) st
     = processar_simples B (j + length xs) ys (processar_simples B j xs st)"
  by (induction xs arbitrary: j st) simp_all

lemma passo_simples_sem_codigo:
  assumes "converterProduto_simples B x = Inl e"
  shows "produtosNovos (passo_simples B j x st) = produtosNovos st
         \<and> falhas (passo_simples B j x st) = falhas st + 1
         \<and> sucessos (passo_simples B j x st) = sucessos st"
  using assms by (simp add: passo_simples_def falha_def Let_def)

text \<open>
  Claim C4. In the strict script, conversor-simples.js, a row whose code is empty (an empty
  cell, or no code at all) makes \<open>converterProduto\<close> fail with the error that the code is
  required. The loop counts the failure and goes on: the records of the run are the records
  of the rows before followed by the records of the rows after, each row at its own
  position, and the failures are those before, this one, and those after.
\<close>

theorem codigo_vazio_linha_excluida:
  assumes "propriedade p nome_Codigo = Str [] \<or> propriedade p nome_Codigo = Undefined
           \<or> propriedade p nome_Codigo = Null"
  shows "(\<exists>t. converterProduto_simples B (Some p)
                = Inl (ErroAoConverter t CampoCodigoObrigatorio))
    \<and> produtosNovos (processar_simples B 0 (pre @ Some p # pos) estado_inicial)
        = produtosNovos (processar_simples B 0 pre estado_inicial)
          @ produtosNovos (processar_simples B (length pre + 1) pos estado_inicial)
    \<and> falhas (processar_simples B 0 (pre @ Some p # pos) estado_inicial)
        = falhas (processar_simples B 0 pre estado_inicial) + 1
          + falhas (processar_simples B (length pre + 1) pos estado_inicial)"
proof -
  from converterProduto_simples_sem_codigo [OF assms]
  obtain t where t: "converterProduto_simples B (Some p)
                = Inl (ErroAoConverter t CampoCodigoObrigatorio)" by blast
  let ?st1 = "processar_simples B 0 pre estado_inicial"
  let ?st2 = "passo_simples B (length pre) (Some p) ?st1"
  have run: "processar_simples B 0 (pre @ Some p # pos) estado_inicial
        = processar_simples B (length pre + 1) pos ?st2"
    by (simp add: processar_simples_append)
  from passo_simples_sem_codigo [OF t, of "length pre" ?st1]
  have s: "produtosNovos ?st2 = produtosNovos ?st1" "falhas ?st2 = falhas ?st1 + 1" by simp_all
  from processar_simples_acrescenta [of B "length pre + 1" pos ?st2] run s
  have "produtosNovos (processar_simples B 0 (pre @ Some p # pos) estado_inicial)
        = produtosNovos ?st1
          @ produtosNovos (processar_simples B (length pre + 1) pos estado_inicial)"
    and "falhas (processar_simples B 0 (pre @ Some p # pos) estado_inicial)
        = falhas ?st1 + 1
          + falhas (processar_simples B (length pre + 1) pos estado_inicial)"
    by simp_all
  with t show ?thesis by blast
qed

theorem codigo_vazio_linha_excluida_witness:
  "propriedade linha_codigo_vazio nome_Codigo = Str []
   \<and> produtosNovos (processar_simples latin1 0 [Some linha_codigo_vazio] estado_inicial) = []
   \<and> falhas (processar_simples latin1 0 [Some linha_codigo_vazio] estado_inicial) = 1"
proof -
  have h: "propriedade linha_codigo_vazio nome_Codigo = Str []"
    by (simp add: propriedade_def linha_codigo_vazio_def)
  then have "propriedade linha_codigo_vazio nome_Codigo = Str []
      \<or> propriedade linha_codigo_vazio nome_Codigo = Undefined
      \<or> propriedade linha_codigo_vazio nome_Codigo = Null" by simp
  from codigo_vazio_linha_excluida [OF this, of latin1 "[]" "[]"] h
  show ?thesis by (simp add: estado_inicial_def)
qed


section \<open>conversor-final-corrigido-v2.js: the placeholder description\<close>

text \<open>The definitions unfolded to evaluate the search for a description on a concrete row.\<close>

lemmas avalia_desc =
  avalia encontrarColuna_def nome_Descricao_def nome_Denominacao_def colunasDescricao_def
  obterValorSeguro_def propriedade_def estaVazio_def nao_descricao_def tem_letra_def
  metodo3_def Let_def










section \<open>conversor-final-corrigido-v2.js: the scan of the columns\<close>







section \<open>The description taken from the code\<close>













text \<open>
  In conversor-final-corrigido-v2.js the code of the record is the whole value of the code
  column, also when the description was taken from it.
\<close>

lemma converterProduto_codigo:
  assumes "converterProduto B p m i = Inr (r, ev)"
  shows "Codigo r
     = (if truthy (obterValorSeguro B p (nomes_ou (codigo m) [nome_Codigo, asc ''Codigo''])
                     (Str []))
        then Str (ToString B (obterValorSeguro B p
                    (nomes_ou (codigo m) [nome_Codigo, asc ''Codigo'']) (Str [])))
        else Str [])"
proof -
  obtain d ev0 where "extrairDescricao B p i = Inr (d, ev0)"
    using extrairDescricao_total by blast
  with assms show ?thesis by (auto simp: converterProduto_def Let_def)
qed

lemma converterProduto_codigo_exemplo:
  "\<exists>r ev. converterProduto latin1 linha_parafuso mapa_vazio 0 = Inr (r, ev)
     \<and> Codigo r = Str (asc ''123 Parafuso Phillips'')"
proof -
  obtain r ev where r: "converterProduto latin1 linha_parafuso mapa_vazio 0 = Inr (r, ev)"
    using converterProduto_retorna by blast
  have "obterValorSeguro latin1 linha_parafuso
       (nomes_ou (codigo mapa_vazio) [nome_Codigo, asc ''Codigo'']) (Str [])
     = Str (asc ''123 Parafuso Phillips'')"
    by (simp add: linha_parafuso_def mapa_vazio_def nomes_ou_def nome_Preco_Varejo_def
        avalia_desc)
  with converterProduto_codigo [OF r] have "Codigo r = Str (asc ''123 Parafuso Phillips'')"
    by (simp add: truthy_def ToString_def asc_def)
  with r show ?thesis by blast
qed

section \<open>The notes\<close>









section \<open>Parsing a number\<close>

text \<open>The definitions unfolded to convert a concrete string to a number.\<close>

lemmas avalia_numero =
  StringToNumber_def StrDecimalLiteral_def StrUnsignedDecimalLiteral_def ExponentPart_def
  SignedInteger_def NonDecimalIntegerLiteral_def digit_of_def is_digit_def digits_val_def
  scale10_def negativo_def trim_def is_ws_def asc_def Let_def ToString_def

lemma takeWhile_digitos:
  "list_all is_digit ds \<Longrightarrow> \<not> is_digit c \<Longrightarrow> takeWhile is_digit (ds @ c # r) = ds"
  by (induction ds) simp_all

lemma dropWhile_digitos:
  "list_all is_digit ds \<Longrightarrow> \<not> is_digit c \<Longrightarrow> dropWhile is_digit (ds @ c # r) = c # r"
  by (induction ds) simp_all

lemma takeWhile_todos: "list_all P xs \<Longrightarrow> takeWhile P xs = xs"
  by (induction xs) simp_all

lemma dropWhile_todos: "list_all P xs \<Longrightarrow> dropWhile P xs = []"
  by (induction xs) simp_all

lemma digito_nao_ws: "is_digit c \<Longrightarrow> \<not> is_ws c"
  by (auto simp: is_digit_def is_ws_def)

lemma trim_sem_espacos:
  assumes "s \<noteq> []" "\<not> is_ws (hd s)" "\<not> is_ws (last s)"
  shows "trim s = s"
proof -
  from assms(1,2) have a: "dropWhile is_ws s = s" by (cases s) simp_all
  from assms(1,3) have "dropWhile is_ws (rev s) = rev s"
    by (cases "rev s") (simp_all add: hd_rev)
  with a show ?thesis by (simp add: trim_def)
qed

lemma StringToNumber_decimal:
  assumes "ds \<noteq> []" "list_all is_digit ds" "fs \<noteq> []" "list_all is_digit fs"
  shows "StringToNumber (ds @ 0x2E # fs)
           = Fin (of_nat (digits_val ds) + of_nat (digits_val fs) / 10 ^ length fs)"
proof -
  let ?s = "ds @ 0x2E # fs"
  have nd: "\<not> is_digit 0x2E" by (simp add: is_digit_def)
  from assms(1,2) have h: "is_digit (hd ?s)" by (cases ds) simp_all
  from assms(3,4) have l: "is_digit (last ?s)"
    by (simp add: list_all_iff)
  from h l have t: "trim ?s = ?s"
    by (intro trim_sem_espacos) (simp_all add: digito_nao_ws)
  obtain c r where cr: "?s = c # r" "is_digit c" using h by (cases ?s) auto
  then have sinal: "c \<noteq> 0x2B" "c \<noteq> 0x2D" by (auto simp: is_digit_def)
  from cr have inf: "?s \<noteq> asc ''Infinity''" by (auto simp: asc_def is_digit_def)
  have u: "StrUnsignedDecimalLiteral ?s
      = Some (Fin (of_nat (digits_val ds) + of_nat (digits_val fs) / 10 ^ length fs))"
    using inf assms
    by (simp add: StrUnsignedDecimalLiteral_def Let_def takeWhile_digitos [OF assms(2) nd]
        dropWhile_digitos [OF assms(2) nd] takeWhile_todos dropWhile_todos
        ExponentPart_def scale10_def)
  have "StrDecimalLiteral ?s = StrUnsignedDecimalLiteral ?s"
    unfolding cr(1) using sinal by (simp add: StrDecimalLiteral_def)
  with u t show ?thesis by (simp add: StringToNumber_def Let_def del: append_is_Nil_conv)
qed

lemma replace_first_prefixo:
  "a \<notin> set ds \<Longrightarrow> replace_first a b (ds @ a # r) = ds @ b # r"
  by (induction ds) simp_all

lemma filter_pontos:
  "list_all (\<lambda>g. list_all is_digit g) grupos \<Longrightarrow>
     filter (\<lambda>c. c \<noteq> 0x2E) (str_join grupos 0x2E) = concat grupos"
proof (induction grupos "0x2E :: nat" rule: str_join.induct)
  case 1
  show ?case by simp
next
  case (2 p)
  then have "\<forall>c \<in> set p. c \<noteq> 0x2E" by (auto simp: list_all_iff is_digit_def)
  then show ?case by (simp add: filter_id_conv)
next
  case (3 p q ps)
  then have "\<forall>c \<in> set p. c \<noteq> 0x2E" by (auto simp: list_all_iff is_digit_def)
  then have "filter (\<lambda>c. c \<noteq> 0x2E) p = p" by (simp add: filter_id_conv)
  with 3 show ?case by simp
qed

text \<open>
  The parser of conversor-final-corrigido-v2.js and conversor-final-corrigido.js on a number
  written with dots between the groups of digits and a comma before the decimals: the
  result is the number the digits denote, whatever the default.
\<close>

lemma parseNumero_milhar:
  assumes "list_all (\<lambda>g. g \<noteq> [] \<and> list_all is_digit g) grupos" and "grupos \<noteq> []"
      and "fs \<noteq> []" and "list_all is_digit fs"
  shows "parseNumero B (Str (str_join grupos 0x2E @ 0x2C # fs)) valorPadrao
           = Num (Fin (of_nat (digits_val (concat grupos))
                       + of_nat (digits_val fs) / 10 ^ length fs))"
proof -
  let ?ds = "concat grupos"
  from assms(1) have g: "list_all (\<lambda>g. list_all is_digit g) grupos"
    by (simp add: list_all_iff)
  from assms(1) have d: "list_all is_digit ?ds" by (auto simp: list_all_iff)
  from assms(1,2) have ne: "?ds \<noteq> []" by (cases grupos) (auto simp: list_all_iff)
  have nc: "0x2C \<notin> set ?ds"
  proof
    assume "0x2C \<in> set ?ds"
    with d have "is_digit 0x2C" unfolding list_all_iff by blast
    then show False by (simp add: is_digit_def)
  qed
  from assms(4) have "\<forall>c \<in> set fs. c \<noteq> 0x2E" by (auto simp: list_all_iff is_digit_def)
  then have ff: "filter (\<lambda>c. c \<noteq> 0x2E) fs = fs" by (simp add: filter_id_conv)
  have "replace_first 0x2C 0x2E
          (filter (\<lambda>c. c \<noteq> 0x2E) (str_join grupos 0x2E @ 0x2C # fs)) = ?ds @ 0x2E # fs"
    using replace_first_prefixo [OF nc, of "0x2E" fs] by (simp add: filter_pontos [OF g] ff)
  moreover have "str_join grupos 0x2E @ 0x2C # fs \<noteq> []" by simp
  ultimately show ?thesis
    using StringToNumber_decimal [OF ne d assms(3,4)]
    by (simp add: parseNumero_def ToString_def Let_def del: append_is_Nil_conv)
qed

lemma parseNumero_milhar_exemplo:
  "list_all (\<lambda>g. g \<noteq> [] \<and> list_all is_digit g) [asc ''1'', asc ''234'']
   \<and> asc ''56'' \<noteq> [] \<and> list_all is_digit (asc ''56'')
   \<and> parseNumero latin1 (Str (asc ''1.234,56'')) (Num (Fin 0)) = Num (Fin 1234.56)"
proof -
  have h1: "list_all (\<lambda>g. g \<noteq> [] \<and> list_all is_digit g) [asc ''1'', asc ''234'']"
    by (simp add: asc_def is_digit_def)
  have h2: "[asc ''1'', asc ''234''] \<noteq> []" by simp
  have h3: "asc ''56'' \<noteq> []" by (simp add: asc_def)
  have h4: "list_all is_digit (asc ''56'')" by (simp add: asc_def is_digit_def)
  have s: "str_join [asc ''1'', asc ''234''] 0x2E @ 0x2C # asc ''56'' = asc ''1.234,56''"
    by (simp add: asc_def)
  have v: "(of_nat (digits_val (concat [asc ''1'', asc ''234'']))
                       + of_nat (digits_val (asc ''56'')) / 10 ^ length (asc ''56'') :: rat)
            = 1234.56"
    by (simp add: asc_def digits_val_def)
  from parseNumero_milhar [OF h1 h2 h3 h4, of latin1 "Num (Fin 0)"]
  have t: "parseNumero latin1 (Str (asc ''1.234,56'')) (Num (Fin 0)) = Num (Fin 1234.56)"
    by (simp only: s v)
  show ?thesis by (rule conjI [OF h1 conjI [OF h3 conjI [OF h4 t]]])
qed

text \<open>
  Claim C3. The parser is to map a number with a dot for the thousands and a comma for the
  decimals to that number, as 1.234,56 to 1234.56. The parser of conversor-simples.js
  does not: it replaces the comma and leaves the dot, the text 1.234.56 is not a number,
  and the default 0 is returned. The parser of the later scripts removes the dots first
  and returns 1234.56. A number with a comma only, as 10,50, is parsed by both.
\<close>

theorem parseNumero_simples_milhar:
  "parseNumero_simples B (Str (asc ''1.234,56'')) (Num (Fin 0)) = Num (Fin 0)
   \<and> parseNumero B (Str (asc ''1.234,56'')) (Num (Fin 0)) = Num (Fin 1234.56)
   \<and> parseNumero_simples B (Str (asc ''10,50'')) (Num (Fin 0)) = Num (Fin 10.5)"
  by (simp add: parseNumero_simples_def parseNumero_def avalia_numero)

text \<open>
  Both parsers return the default for an empty cell, for \<open>NaN\<close> and for a text that is
  not a number.
\<close>

lemma parseNumero_padrao:
  "parseNumero B Undefined d = d" "parseNumero B Null d = d" "parseNumero B (Str []) d = d"
  "parseNumero B (Num NaN) d = d" "parseNumero B (Str (asc ''abc'')) d = d"
  "parseNumero_simples B Undefined d = d" "parseNumero_simples B Null d = d"
  "parseNumero_simples B (Str []) d = d" "parseNumero_simples B (Num NaN) d = d"
  "parseNumero_simples B (Str (asc ''abc'')) d = d"
  by (simp_all add: parseNumero_simples_def parseNumero_def avalia_numero)


end
